theory Spec2Isabelle
  imports Main
begin

section \<open>Python values\<close>

text \<open>
  The charm handles relation data and HTTP response bodies that were parsed from JSON,
  and it inspects them dynamically (\<^verbatim>\<open>.get\<close>, iteration, \<^verbatim>\<open>.startswith\<close>).
  The values are modelled as the JSON fragment of Python: \<^verbatim>\<open>None\<close>, booleans, integers,
  strings, lists, and dictionaries with string keys. A dictionary is an association list
  in insertion order, as Python keeps it. Non-integer numbers are not represented.
\<close>

datatype pyval =
    PNone
  | PBool bool
  | PInt int
  | PStr string
  | PList "pyval list"
  | PDict "(string \<times> pyval) list"

text \<open>The exceptions the modelled code can raise.\<close>

datatype py_error =
    AttributeError
  | TypeError
  | KeyError
  | OSError
  | CalledProcessError
  | RequestException
  | JSONDecodeError

text \<open>\<^verbatim>\<open>x.get(k, default)\<close>: only a dictionary has the method.\<close>

fun dict_get :: "pyval \<Rightarrow> string \<Rightarrow> pyval \<Rightarrow> py_error + pyval" where
  "dict_get (PDict kvs) k d = Inr (case map_of kvs k of None \<Rightarrow> d | Some v \<Rightarrow> v)"
| "dict_get _ k d = Inl AttributeError"

text \<open>
  \<^verbatim>\<open>k in x\<close> and \<^verbatim>\<open>x[k]\<close>. The code applies them only to an object whose
  \<^verbatim>\<open>.get\<close> has already succeeded, that is to a dictionary; the clause for other
  objects is never reached.
\<close>

fun dict_contains :: "pyval \<Rightarrow> string \<Rightarrow> py_error + bool" where
  "dict_contains (PDict kvs) k = Inr (map_of kvs k \<noteq> None)"
| "dict_contains _ k = Inl TypeError"

fun dict_index :: "pyval \<Rightarrow> string \<Rightarrow> py_error + pyval" where
  "dict_index (PDict kvs) k = (case map_of kvs k of None \<Rightarrow> Inl KeyError | Some v \<Rightarrow> Inr v)"
| "dict_index _ k = Inl TypeError"

text \<open>
  \<^verbatim>\<open>for x in v\<close>: a list yields its elements, a dictionary its keys, a string its
  characters as one-character strings; anything else is not iterable.
\<close>

fun py_iter :: "pyval \<Rightarrow> py_error + pyval list" where
  "py_iter (PList xs) = Inr xs"
| "py_iter (PDict kvs) = Inr (map (\<lambda>kv. PStr (fst kv)) kvs)"
| "py_iter (PStr s) = Inr (map (\<lambda>c. PStr [c]) s)"
| "py_iter _ = Inl TypeError"

text \<open>\<^verbatim>\<open>t.startswith(p)\<close>: only a string has the method.\<close>

fun startswith :: "pyval \<Rightarrow> string \<Rightarrow> py_error + bool" where
  "startswith (PStr s) p = Inr (take (length p) s = p)"
| "startswith _ p = Inl AttributeError"

text \<open>Truth value of an object in a condition.\<close>

fun truthy :: "pyval \<Rightarrow> bool" where
  "truthy PNone = False"
| "truthy (PBool b) = b"
| "truthy (PInt i) = (i \<noteq> 0)"
| "truthy (PStr s) = (s \<noteq> [])"
| "truthy (PList xs) = (xs \<noteq> [])"
| "truthy (PDict kvs) = (kvs \<noteq> [])"

section \<open>Charm configuration\<close>

text \<open>
  \<^verbatim>\<open>self.config\<close> maps option names to values of the option's declared type
  (string, integer or boolean).
\<close>

datatype cfgval = CStr string | CInt int | CBool bool

type_synonym config = "string \<rightharpoonup> cfgval"

definition config_get :: "config \<Rightarrow> string \<Rightarrow> cfgval \<Rightarrow> cfgval" where
  "config_get cfg k d = (case cfg k of None \<Rightarrow> d | Some v \<Rightarrow> v)"

fun pyval_of_cfg :: "cfgval \<Rightarrow> pyval" where
  "pyval_of_cfg (CStr s) = PStr s"
| "pyval_of_cfg (CInt i) = PInt i"
| "pyval_of_cfg (CBool b) = PBool b"

section \<open>prometheus\_config.py: the configuration renderer\<close>

definition build_global_config :: "config \<Rightarrow> pyval" where
  "build_global_config cfg =
     (let scrape_interval = config_get cfg ''scrape-interval'' (CStr ''1m'');
          scrape_timeout = config_get cfg ''scrape-timeout'' (CStr ''10s'');
          evaluation_interval = config_get cfg ''evaluation-interval'' (CStr ''1m'')
      in PDict [(''scrape_interval'', pyval_of_cfg scrape_interval),
                (''scrape_timeout'', pyval_of_cfg scrape_timeout),
                (''evaluation_interval'', pyval_of_cfg evaluation_interval)])"

definition build_self_monitoring_job :: "pyval" where
  "build_self_monitoring_job =
     PDict [(''job_name'', PStr ''prometheus''),
            (''static_configs'', PList [PDict [(''targets'', PList [PStr ''localhost:9090''])]])]"

text \<open>
  The inner loop of \<^verbatim>\<open>_build_job_config\<close> over the targets of one group: both branches
  of the wildcard test append the target unchanged.
\<close>

fun resolve_targets :: "pyval list \<Rightarrow> pyval list \<Rightarrow> py_error + pyval list" where
  "resolve_targets [] resolved_targets = Inr resolved_targets"
| "resolve_targets (target # rest) resolved_targets =
     (case startswith target ''*:'' of
        Inl e \<Rightarrow> Inl e
      | Inr wildcard \<Rightarrow>
          if wildcard then resolve_targets rest (resolved_targets @ [target])
          else resolve_targets rest (resolved_targets @ [target]))"

text \<open>The outer loop over the static configs of one job.\<close>

fun process_static_configs :: "pyval list \<Rightarrow> pyval list \<Rightarrow> py_error + pyval list" where
  "process_static_configs [] processed = Inr processed"
| "process_static_configs (config # rest) processed =
     (case dict_get config ''targets'' (PList []) of
        Inl e \<Rightarrow> Inl e
      | Inr targets \<Rightarrow>
     (case dict_get config ''labels'' (PDict []) of
        Inl e \<Rightarrow> Inl e
      | Inr labels \<Rightarrow>
     (case py_iter targets of
        Inl e \<Rightarrow> Inl e
      | Inr ts \<Rightarrow>
     (case resolve_targets ts [] of
        Inl e \<Rightarrow> Inl e
      | Inr resolved_targets \<Rightarrow>
          if resolved_targets \<noteq> []
          then process_static_configs rest
                 (processed @ [PDict [(''targets'', PList resolved_targets), (''labels'', labels)]])
          else process_static_configs rest processed))))"

text \<open>
  \<^verbatim>\<open>_build_job_config\<close>: \<^verbatim>\<open>Inl\<close> is a raised exception, \<^verbatim>\<open>Inr PNone\<close> the
  \<^verbatim>\<open>return None\<close> of a job without targets (the warning it logs is not modelled).
\<close>

definition build_job_config :: "pyval \<Rightarrow> pyval \<Rightarrow> py_error + pyval" where
  "build_job_config job_name job_data =
     (case dict_get job_data ''metrics_path'' (PStr ''/metrics'') of
        Inl e \<Rightarrow> Inl e
      | Inr metrics_path \<Rightarrow>
     (case dict_get job_data ''static_configs'' (PList []) of
        Inl e \<Rightarrow> Inl e
      | Inr static_configs \<Rightarrow>
     (case py_iter static_configs of
        Inl e \<Rightarrow> Inl e
      | Inr configs \<Rightarrow>
     (case process_static_configs configs [] of
        Inl e \<Rightarrow> Inl e
      | Inr processed_static_configs \<Rightarrow>
          if processed_static_configs = [] then Inr PNone
          else
     (case dict_contains job_data ''relabel_configs'' of
        Inl e \<Rightarrow> Inl e
      | Inr has_relabel \<Rightarrow>
     (case (if has_relabel then dict_index job_data ''relabel_configs'' else Inr PNone) of
        Inl e \<Rightarrow> Inl e
      | Inr relabel \<Rightarrow>
     (case dict_contains job_data ''metric_relabel_configs'' of
        Inl e \<Rightarrow> Inl e
      | Inr has_metric_relabel \<Rightarrow>
     (case (if has_metric_relabel then dict_index job_data ''metric_relabel_configs''
            else Inr PNone) of
        Inl e \<Rightarrow> Inl e
      | Inr metric_relabel \<Rightarrow>
          Inr (PDict
            ([(''job_name'', job_name),
              (''metrics_path'', metrics_path),
              (''static_configs'', PList processed_static_configs)]
             @ (if has_relabel then [(''relabel_configs'', relabel)] else [])
             @ (if has_metric_relabel then [(''metric_relabel_configs'', metric_relabel)]
                else [])))))))))))"

text \<open>
  The loop of \<^verbatim>\<open>_build_scrape_configs\<close> over \<^verbatim>\<open>scrape_jobs.items()\<close>. The
  \<^verbatim>\<open>except Exception\<close> clause logs and goes on to the next job.
\<close>

fun scrape_jobs_loop :: "(pyval \<times> pyval) list \<Rightarrow> pyval list \<Rightarrow> pyval list" where
  "scrape_jobs_loop [] configs = configs"
| "scrape_jobs_loop ((job_name, job_data) # rest) configs =
     (case build_job_config job_name job_data of
        Inl e \<Rightarrow> scrape_jobs_loop rest configs
      | Inr scrape_config \<Rightarrow>
          if truthy scrape_config then scrape_jobs_loop rest (configs @ [scrape_config])
          else scrape_jobs_loop rest configs)"

definition build_scrape_configs :: "(pyval \<times> pyval) list \<Rightarrow> pyval list" where
  "build_scrape_configs scrape_jobs = scrape_jobs_loop scrape_jobs [build_self_monitoring_job]"

text \<open>The document \<^verbatim>\<open>generate_config\<close> hands to \<^verbatim>\<open>yaml.dump(..., sort_keys=False)\<close>.\<close>

definition config_document :: "config \<Rightarrow> (pyval \<times> pyval) list \<Rightarrow> pyval" where
  "config_document cfg scrape_jobs =
     PDict [(''global'', build_global_config cfg),
            (''scrape_configs'', PList (build_scrape_configs scrape_jobs))]"

section \<open>charm.py: collecting the scrape jobs\<close>

text \<open>
  \<^verbatim>\<open>_get_scrape_jobs\<close> stores each job of \<^verbatim>\<open>metrics_consumer.jobs()\<close> in a dictionary
  under its \<^verbatim>\<open>job_name\<close>. The dictionary is keyed by arbitrary hashable objects: lists
  and dictionaries are unhashable, and \<^verbatim>\<open>True == 1\<close>, \<^verbatim>\<open>False == 0\<close> as keys.
  Assigning to a key that is present replaces the value and keeps the entry's position.
\<close>

fun hashable :: "pyval \<Rightarrow> bool" where
  "hashable (PList xs) = False"
| "hashable (PDict kvs) = False"
| "hashable _ = True"

fun key_norm :: "pyval \<Rightarrow> pyval" where
  "key_norm (PBool b) = PInt (if b then 1 else 0)"
| "key_norm v = v"

definition key_eq :: "pyval \<Rightarrow> pyval \<Rightarrow> bool" where
  "key_eq a b = (key_norm a = key_norm b)"

fun dict_store :: "(pyval \<times> pyval) list \<Rightarrow> pyval \<Rightarrow> pyval \<Rightarrow> (pyval \<times> pyval) list" where
  "dict_store [] k v = [(k, v)]"
| "dict_store ((k', v') # rest) k v =
     (if key_eq k' k then (k', v) # rest else (k', v') # dict_store rest k v)"

definition dict_setitem ::
  "(pyval \<times> pyval) list \<Rightarrow> pyval \<Rightarrow> pyval \<Rightarrow> py_error + (pyval \<times> pyval) list" where
  "dict_setitem d k v = (if hashable k then Inr (dict_store d k v) else Inl TypeError)"

fun collect_jobs ::
  "pyval list \<Rightarrow> (pyval \<times> pyval) list \<Rightarrow> py_error + (pyval \<times> pyval) list" where
  "collect_jobs [] jobs = Inr jobs"
| "collect_jobs (job # rest) jobs =
     (case dict_get job ''job_name'' (PStr ''unknown'') of
        Inl e \<Rightarrow> Inl e
      | Inr job_name \<Rightarrow>
     (case dict_setitem jobs job_name job of
        Inl e \<Rightarrow> Inl e
      | Inr jobs' \<Rightarrow> collect_jobs rest jobs'))"

definition get_scrape_jobs :: "pyval list \<Rightarrow> py_error + (pyval \<times> pyval) list" where
  "get_scrape_jobs consumer_jobs = collect_jobs consumer_jobs []"

section \<open>charm.py: the status probe\<close>

text \<open>
  What one \<^verbatim>\<open>requests.get\<close> can do: raise \<^verbatim>\<open>ConnectionError\<close> or \<^verbatim>\<open>Timeout\<close>, raise
  another exception, or return a response with a status code and a body
  (\<^verbatim>\<open>None\<close> when \<^verbatim>\<open>response.json()\<close> raises). The endpoint is a function from the
  attempt number to the outcome of that attempt.
\<close>

datatype http_outcome =
    ConnectionError
  | Timeout
  | OtherFailure
  | Response int "pyval option"

text \<open>
  The effects of a probe, in the order they happen: a GET of a URL, or
  \<^verbatim>\<open>time.sleep\<close> of a number of seconds.
\<close>

datatype probe_event = Request string | Sleep nat

type_synonym probe_trace = "probe_event list"

text \<open>\<^verbatim>\<open>listen_address.split(":")[-1]\<close>: what follows the last colon.\<close>

fun split_last :: "cfgval \<Rightarrow> py_error + string" where
  "split_last (CStr s) = Inr (rev (takeWhile (\<lambda>c. c \<noteq> CHR '':'') (rev s)))"
| "split_last _ = Inl AttributeError"

text \<open>The list comprehension that excludes the self-monitoring job.\<close>

fun non_self_targets :: "pyval list \<Rightarrow> pyval list \<Rightarrow> py_error + pyval list" where
  "non_self_targets [] acc = Inr acc"
| "non_self_targets (t # rest) acc =
     (case dict_get t ''labels'' (PDict []) of
        Inl e \<Rightarrow> Inl e
      | Inr labels \<Rightarrow>
     (case dict_get labels ''job'' PNone of
        Inl e \<Rightarrow> Inl e
      | Inr job \<Rightarrow>
          if job \<noteq> PStr ''prometheus'' then non_self_targets rest (acc @ [t])
          else non_self_targets rest acc))"

definition count_active_targets :: "pyval \<Rightarrow> py_error + nat" where
  "count_active_targets data =
     (case dict_get data ''data'' (PDict []) of
        Inl e \<Rightarrow> Inl e
      | Inr d \<Rightarrow>
     (case dict_get d ''activeTargets'' (PList []) of
        Inl e \<Rightarrow> Inl e
      | Inr active_targets \<Rightarrow>
     (case py_iter active_targets of
        Inl e \<Rightarrow> Inl e
      | Inr ts \<Rightarrow>
     (case non_self_targets ts [] of
        Inl e \<Rightarrow> Inl e
      | Inr non_self \<Rightarrow> Inr (length non_self)))))"

text \<open>
  The loop \<^verbatim>\<open>for attempt in range(max_retries)\<close>. \<^verbatim>\<open>Inr (Some n)\<close> is the
  \<^verbatim>\<open>return\<close> inside the loop, \<^verbatim>\<open>Inr None\<close> the loop running out, \<^verbatim>\<open>Inl\<close> an
  exception the inner handler does not catch.
\<close>

fun retry_loop ::
  "(nat \<Rightarrow> http_outcome) \<Rightarrow> string \<Rightarrow> nat \<Rightarrow> nat list \<Rightarrow> probe_trace
     \<Rightarrow> (py_error + nat option) \<times> probe_trace" where
  "retry_loop endpoint port max_retries [] tr = (Inr None, tr)"
| "retry_loop endpoint port max_retries (attempt # rest) tr =
     (let tr1 = tr @ [Request (''http://localhost:'' @ port @ ''/api/v1/targets'')];
          tr2 = (if attempt < max_retries - 1 then tr1 @ [Sleep 2] else tr1)
      in case endpoint attempt of
           ConnectionError \<Rightarrow> retry_loop endpoint port max_retries rest tr2
         | Timeout \<Rightarrow> retry_loop endpoint port max_retries rest tr2
         | OtherFailure \<Rightarrow> (Inl RequestException, tr1)
         | Response status_code body \<Rightarrow>
             if status_code = 200 then
               (case body of
                  None \<Rightarrow> (Inl JSONDecodeError, tr1)
                | Some data \<Rightarrow>
                    (case count_active_targets data of
                       Inl e \<Rightarrow> (Inl e, tr1)
                     | Inr n \<Rightarrow> (Inr (Some n), tr1)))
             else retry_loop endpoint port max_retries rest tr1)"

text \<open>
  \<^verbatim>\<open>_get_active_targets_from_api\<close>: the outer \<^verbatim>\<open>except Exception\<close> turns every
  exception into the final \<^verbatim>\<open>return 0\<close>.
\<close>

definition get_active_targets_from_api ::
  "config \<Rightarrow> (nat \<Rightarrow> http_outcome) \<Rightarrow> nat \<times> probe_trace" where
  "get_active_targets_from_api cfg endpoint =
     (case split_last (config_get cfg ''listen-address'' (CStr ''0.0.0.0:9090'')) of
        Inl e \<Rightarrow> (0, [])
      | Inr port \<Rightarrow>
          (let max_retries = 3 in
           case retry_loop endpoint port max_retries [0..<max_retries] [] of
             (Inl e, tr) \<Rightarrow> (0, tr)
           | (Inr None, tr) \<Rightarrow> (0, tr)
           | (Inr (Some n), tr) \<Rightarrow> (n, tr)))"

section \<open>prometheus\_installer.py: the managed process\<close>

text \<open>Decimal text of a number, as an f-string prints it.\<close>

fun str_of_nat :: "nat \<Rightarrow> string" where
  "str_of_nat n =
     (if n < 10 then [''0123456789'' ! n]
      else str_of_nat (n div 10) @ [''0123456789'' ! (n mod 10)])"

definition str_of_int :: "int \<Rightarrow> string" where
  "str_of_int i = (if i < 0 then ''-'' @ str_of_nat (nat (- i)) else str_of_nat (nat i))"

fun format_cfg :: "cfgval \<Rightarrow> string" where
  "format_cfg (CStr s) = s"
| "format_cfg (CInt i) = str_of_int i"
| "format_cfg (CBool b) = (if b then ''True'' else ''False'')"

definition PROMETHEUS_CONFIG_DIR :: string where
  "PROMETHEUS_CONFIG_DIR = ''/etc/prometheus''"

definition PROMETHEUS_DATA_DIR :: string where
  "PROMETHEUS_DATA_DIR = ''/var/lib/prometheus''"

text \<open>
  The command line \<^verbatim>\<open>create_systemd_service\<close> builds for the process (the list
  \<^verbatim>\<open>args\<close>; writing the unit file is not modelled).
\<close>

definition service_args :: "config \<Rightarrow> string list" where
  "service_args cfg =
     (let listen_address = config_get cfg ''listen-address'' (CStr ''0.0.0.0:9090'');
          retention_time = config_get cfg ''retention-time'' (CStr ''15d'');
          retention_size = config_get cfg ''retention-size'' (CStr ''0'');
          external_url = config_get cfg ''external-url'' (CStr []);
          log_level = config_get cfg ''log-level'' (CStr ''info'');
          enable_admin_api = config_get cfg ''enable-admin-api'' (CBool False)
      in [''--config.file='' @ PROMETHEUS_CONFIG_DIR @ ''/prometheus.yml'',
          ''--storage.tsdb.path='' @ PROMETHEUS_DATA_DIR,
          ''--web.console.templates='' @ PROMETHEUS_CONFIG_DIR @ ''/consoles'',
          ''--web.console.libraries='' @ PROMETHEUS_CONFIG_DIR @ ''/console_libraries'',
          ''--web.listen-address='' @ format_cfg listen_address,
          ''--storage.tsdb.retention.time='' @ format_cfg retention_time,
          ''--log.level='' @ format_cfg log_level]
         @ (if retention_size \<noteq> CStr ''0''
            then [''--storage.tsdb.retention.size='' @ format_cfg retention_size] else [])
         @ (if truthy (pyval_of_cfg external_url)
            then [''--web.external-url='' @ format_cfg external_url] else [])
         @ (if truthy (pyval_of_cfg enable_admin_api) then [''--web.enable-admin-api''] else []))"

section \<open>The unit and its environment\<close>

datatype unit_status =
    ActiveStatus string
  | WaitingStatus string
  | BlockedStatus string
  | MaintenanceStatus string

text \<open>
  Everything the handlers read or change. \<^verbatim>\<open>config_writes\<close> and \<^verbatim>\<open>restarts_issued\<close>
  count the writes of the configuration file and the \<^verbatim>\<open>systemctl restart\<close> commands run;
  \<^verbatim>\<open>probe_events\<close> records the probes' effects. The last four fields
  are the environment's behaviour, which the code does not control: whether opening the
  file fails, whether \<^verbatim>\<open>systemctl restart\<close> exits non-zero, whether the service is
  active after such a failed restart, and what the status endpoint answers.
\<close>

record world =
  charm_config :: config
  consumer_jobs :: "pyval list"
  config_file :: "pyval option"
  config_writes :: nat
  service_active :: bool
  restarts_issued :: nat
  binary_present :: bool
  status :: unit_status
  probe_events :: probe_trace
  write_fails :: bool
  restart_fails :: bool
  active_after_failed_restart :: bool
  endpoint :: "nat \<Rightarrow> http_outcome"

text \<open>\<^verbatim>\<open>generate_config\<close>: build the document, then replace the file with it.\<close>

definition generate_config :: "world \<Rightarrow> (pyval \<times> pyval) list \<Rightarrow> py_error option \<times> world" where
  "generate_config w scrape_jobs =
     (let config = config_document (charm_config w) scrape_jobs
      in if write_fails w then (Some OSError, w)
         else (None, w\<lparr>config_file := Some config, config_writes := Suc (config_writes w)\<rparr>))"

definition is_service_running :: "world \<Rightarrow> bool" where
  "is_service_running w = service_active w"

definition is_installed :: "world \<Rightarrow> bool" where
  "is_installed w = binary_present w"

text \<open>\<^verbatim>\<open>restart_service\<close>: \<^verbatim>\<open>subprocess.run(..., check=True)\<close> raises on a non-zero exit.\<close>

definition restart_service :: "world \<Rightarrow> py_error option \<times> world" where
  "restart_service w =
     (if restart_fails w
      then (Some CalledProcessError,
            w\<lparr>restarts_issued := Suc (restarts_issued w),
              service_active := active_after_failed_restart w\<rparr>)
      else (None, w\<lparr>restarts_issued := Suc (restarts_issued w), service_active := True\<rparr>))"

definition update_status :: "world \<Rightarrow> world" where
  "update_status w =
     (if \<not> is_installed w then w\<lparr>status := BlockedStatus ''Prometheus not installed''\<rparr>
      else if \<not> is_service_running w
      then w\<lparr>status := BlockedStatus ''Prometheus service not running''\<rparr>
      else
        (case get_active_targets_from_api (charm_config w) (endpoint w) of
           (target_count, tr) \<Rightarrow>
             (let w1 = w\<lparr>probe_events := probe_events w @ tr\<rparr>
              in if target_count = 0
                 then w1\<lparr>status := ActiveStatus ''Prometheus ready (no targets)''\<rparr>
                 else w1\<lparr>status := ActiveStatus
                        (''Prometheus ready (scraping '' @ str_of_nat target_count @ '' targets)'')\<rparr>)))"

text \<open>
  The two reconfiguration handlers. The first component of the result is the exception
  that leaves the handler, if any; the second is the state it leaves behind.
\<close>

definition on_config_changed :: "world \<Rightarrow> py_error option \<times> world" where
  "on_config_changed w =
     (case get_scrape_jobs (consumer_jobs w) of
        Inl e \<Rightarrow> (Some e, w)
      | Inr jobs \<Rightarrow>
     (case generate_config w jobs of
        (Some e, w1) \<Rightarrow> (Some e, w1)
      | (None, w1) \<Rightarrow>
     (case (if is_service_running w1 then restart_service w1 else (None, w1)) of
        (Some e, w2) \<Rightarrow> (Some e, w2)
      | (None, w2) \<Rightarrow> (None, update_status w2))))"

definition on_targets_changed :: "world \<Rightarrow> py_error option \<times> world" where
  "on_targets_changed w =
     (case get_scrape_jobs (consumer_jobs w) of
        Inl e \<Rightarrow> (Some e, w)
      | Inr jobs \<Rightarrow>
     (case generate_config w jobs of
        (Some e, w1) \<Rightarrow> (Some e, w1)
      | (None, w1) \<Rightarrow>
     (case (if is_service_running w1 then restart_service w1 else (None, w1)) of
        (Some e, w2) \<Rightarrow> (Some e, w2)
      | (None, w2) \<Rightarrow> (None, update_status w2))))"

section \<open>Vocabulary of the specification\<close>

text \<open>
  The definitions of this section are not translations of code: they say, in the
  specification's terms, what the loops above are expected to compute, and they fix the
  example inputs on which the theorems are instantiated.
\<close>

subsection \<open>Job descriptors and their rendering\<close>

text \<open>The target groups of a job descriptor, and the targets and labels of a group.\<close>

definition job_groups :: "pyval \<Rightarrow> pyval list" where
  "job_groups d =
     (case dict_get d ''static_configs'' (PList []) of
        Inl e \<Rightarrow> []
      | Inr static_configs \<Rightarrow> (case py_iter static_configs of Inl e \<Rightarrow> [] | Inr gs \<Rightarrow> gs))"

definition group_targets :: "pyval \<Rightarrow> pyval list" where
  "group_targets g =
     (case dict_get g ''targets'' (PList []) of
        Inl e \<Rightarrow> []
      | Inr targets \<Rightarrow> (case py_iter targets of Inl e \<Rightarrow> [] | Inr ts \<Rightarrow> ts))"

definition group_labels :: "pyval \<Rightarrow> pyval" where
  "group_labels g = (case dict_get g ''labels'' (PDict []) of Inl e \<Rightarrow> PDict [] | Inr l \<Rightarrow> l)"

text \<open>The groups that survive: those whose target set is not empty, in their order.\<close>

definition kept_groups :: "pyval list \<Rightarrow> pyval list" where
  "kept_groups gs = filter (\<lambda>g. group_targets g \<noteq> []) gs"

text \<open>A surviving group as it is rendered, and the rendered job around the groups.\<close>

definition rendered_group :: "pyval \<Rightarrow> pyval" where
  "rendered_group g = PDict [(''targets'', PList (group_targets g)), (''labels'', group_labels g)]"

definition optional_entry :: "pyval \<Rightarrow> string \<Rightarrow> (string \<times> pyval) list" where
  "optional_entry d k = (case dict_index d k of Inl e \<Rightarrow> [] | Inr v \<Rightarrow> [(k, v)])"

definition rendered_job :: "pyval \<Rightarrow> pyval \<Rightarrow> pyval" where
  "rendered_job n d =
     PDict ([(''job_name'', n),
             (''metrics_path'',
                (case dict_get d ''metrics_path'' (PStr ''/metrics'') of
                   Inl e \<Rightarrow> PStr ''/metrics'' | Inr p \<Rightarrow> p)),
             (''static_configs'', PList (map rendered_group (kept_groups (job_groups d))))]
            @ optional_entry d ''relabel_configs''
            @ optional_entry d ''metric_relabel_configs'')"

text \<open>
  A job descriptor of the shape the specification's data model gives it: a dictionary
  whose \<^verbatim>\<open>static_configs\<close>, when present, is a list of dictionaries whose
  \<^verbatim>\<open>targets\<close>, when present, is a list of strings.
\<close>

fun is_string :: "pyval \<Rightarrow> bool" where
  "is_string (PStr s) = True"
| "is_string _ = False"

fun well_formed_group :: "pyval \<Rightarrow> bool" where
  "well_formed_group (PDict kvs) =
     (case map_of kvs ''targets'' of
        None \<Rightarrow> True
      | Some (PList ts) \<Rightarrow> list_all is_string ts
      | Some _ \<Rightarrow> False)"
| "well_formed_group _ = False"

fun well_formed_job :: "pyval \<Rightarrow> bool" where
  "well_formed_job (PDict kvs) =
     (case map_of kvs ''static_configs'' of
        None \<Rightarrow> True
      | Some (PList gs) \<Rightarrow> list_all well_formed_group gs
      | Some _ \<Rightarrow> False)"
| "well_formed_job _ = False"

text \<open>What one entry of the job collection adds to the scrape-config list.\<close>

definition job_contribution :: "pyval \<times> pyval \<Rightarrow> pyval option" where
  "job_contribution job =
     (case build_job_config (fst job) (snd job) of
        Inl e \<Rightarrow> None
      | Inr c \<Rightarrow> if truthy c then Some c else None)"

subsection \<open>Jobs of the event source\<close>

text \<open>The key a job is stored under, and the jobs that can be stored at all.\<close>

definition job_key :: "pyval \<Rightarrow> pyval" where
  "job_key job = (case dict_get job ''job_name'' (PStr ''unknown'') of Inl e \<Rightarrow> PNone | Inr k \<Rightarrow> k)"

fun is_dict :: "pyval \<Rightarrow> bool" where
  "is_dict (PDict kvs) = True"
| "is_dict _ = False"

definition storable_job :: "pyval \<Rightarrow> bool" where
  "storable_job job = (is_dict job \<and> hashable (job_key job))"

definition unknown_jobs :: "pyval list \<Rightarrow> pyval list" where
  "unknown_jobs js = filter (\<lambda>j. job_key j = PStr ''unknown'') js"

subsection \<open>The status endpoint\<close>

definition targets_url :: "string \<Rightarrow> string" where
  "targets_url port = ''http://localhost:'' @ port @ ''/api/v1/targets''"

fun is_request :: "probe_event \<Rightarrow> bool" where
  "is_request (Request u) = True"
| "is_request (Sleep n) = False"

text \<open>An outcome after which the loop goes on to the next attempt.\<close>

fun transient :: "http_outcome \<Rightarrow> bool" where
  "transient ConnectionError = True"
| "transient Timeout = True"
| "transient OtherFailure = False"
| "transient (Response status_code body) = (status_code \<noteq> 200)"

text \<open>The active-target list of a response body, and the job label of one entry.\<close>

definition active_targets :: "pyval \<Rightarrow> pyval list" where
  "active_targets data =
     (case dict_get data ''data'' (PDict []) of
        Inl e \<Rightarrow> []
      | Inr d \<Rightarrow>
     (case dict_get d ''activeTargets'' (PList []) of
        Inl e \<Rightarrow> []
      | Inr a \<Rightarrow> (case py_iter a of Inl e \<Rightarrow> [] | Inr ts \<Rightarrow> ts)))"

definition job_label :: "pyval \<Rightarrow> pyval" where
  "job_label t =
     (case dict_get t ''labels'' (PDict []) of
        Inl e \<Rightarrow> PNone
      | Inr labels \<Rightarrow> (case dict_get labels ''job'' PNone of Inl e \<Rightarrow> PNone | Inr j \<Rightarrow> j))"

text \<open>
  A response body of the shape the status API documents:
  \<^verbatim>\<open>{data: {activeTargets: [{labels: {job: ...}}, ...]}}\<close>.
\<close>

fun well_formed_target :: "pyval \<Rightarrow> bool" where
  "well_formed_target (PDict kvs) =
     (case map_of kvs ''labels'' of
        None \<Rightarrow> True
      | Some (PDict labels) \<Rightarrow> True
      | Some _ \<Rightarrow> False)"
| "well_formed_target _ = False"

fun well_formed_response :: "pyval \<Rightarrow> bool" where
  "well_formed_response (PDict kvs) =
     (case map_of kvs ''data'' of
        None \<Rightarrow> True
      | Some (PDict d) \<Rightarrow>
          (case map_of d ''activeTargets'' of
             None \<Rightarrow> True
           | Some (PList ts) \<Rightarrow> list_all well_formed_target ts
           | Some _ \<Rightarrow> False)
      | Some _ \<Rightarrow> False)"
| "well_formed_response _ = False"

subsection \<open>Example inputs\<close>

definition example_job :: pyval where
  "example_job =
     PDict [(''static_configs'',
        PList [PDict [(''targets'', PList [])],
               PDict [(''targets'', PList [PStr ''10.0.0.1:9100'']), (''labels'', PDict [(''env'', PStr ''a'')])],
               PDict [(''labels'', PDict [])],
               PDict [(''targets'', PList [PStr ''*:9391''])]])]"

definition good_job_a :: pyval where
  "good_job_a = PDict [(''static_configs'', PList [PDict [(''targets'', PList [PStr ''10.0.0.1:9100''])]])]"

definition good_job_b :: pyval where
  "good_job_b =
     PDict [(''metrics_path'', PStr ''/m''),
            (''static_configs'', PList [PDict [(''targets'', PList [PStr ''10.0.0.2:9100''])]]),
            (''relabel_configs'', PList [])]"

definition bad_job :: pyval where
  "bad_job = PDict [(''static_configs'', PInt 5)]"

definition rendered_a :: pyval where
  "rendered_a =
     PDict [(''job_name'', PStr ''app-a''), (''metrics_path'', PStr ''/metrics''),
            (''static_configs'',
               PList [PDict [(''targets'', PList [PStr ''10.0.0.1:9100'']), (''labels'', PDict [])]])]"

definition rendered_b :: pyval where
  "rendered_b =
     PDict [(''job_name'', PStr ''app-b''), (''metrics_path'', PStr ''/m''),
            (''static_configs'',
               PList [PDict [(''targets'', PList [PStr ''10.0.0.2:9100'']), (''labels'', PDict [])]]),
            (''relabel_configs'', PList [])]"

definition nameless_1 :: pyval where
  "nameless_1 = PDict [(''static_configs'', PList [PDict [(''targets'', PList [PStr ''10.0.0.1:9100''])]])]"

definition nameless_2 :: pyval where
  "nameless_2 = PDict [(''static_configs'', PList [PDict [(''targets'', PList [PStr ''10.0.0.2:9100''])]])]"

definition named_unknown :: pyval where
  "named_unknown =
     PDict [(''job_name'', PStr ''unknown''),
            (''static_configs'', PList [PDict [(''targets'', PList [PStr ''10.0.0.3:9100''])]])]"

definition named_app :: pyval where
  "named_app =
     PDict [(''job_name'', PStr ''app''),
            (''static_configs'', PList [PDict [(''targets'', PList [PStr ''10.0.0.4:9100''])]])]"

definition example_response :: pyval where
  "example_response =
     PDict [(''status'', PStr ''success''),
            (''data'', PDict [(''activeTargets'',
               PList [PDict [(''labels'', PDict [(''job'', PStr ''prometheus'')])],
                      PDict [(''labels'', PDict [(''job'', PStr ''app-a'')])],
                      PDict [(''labels'', PDict [(''job'', PStr ''prometheus-2'')])]])])]"

definition example_endpoint :: "nat \<Rightarrow> http_outcome" where
  "example_endpoint k = (if k = 0 then ConnectionError else Response 200 (Some example_response))"

definition dead_endpoint :: "nat \<Rightarrow> http_outcome" where
  "dead_endpoint k = (if k = 1 then Timeout else ConnectionError)"

definition moved_port_config :: config where
  "moved_port_config = [''listen-address'' \<mapsto> CStr ''0.0.0.0:9091'']"

definition running_world :: world where
  "running_world =
     \<lparr>charm_config = [''scrape-interval'' \<mapsto> CStr ''30s''],
      consumer_jobs = [named_app],
      config_file = None,
      config_writes = 0,
      service_active = True,
      restarts_issued = 0,
      binary_present = True,
      status = MaintenanceStatus ''Prometheus installed'',
      probe_events = [],
      write_fails = False,
      restart_fails = False,
      active_after_failed_restart = False,
      endpoint = dead_endpoint\<rparr>"

definition stopped_world :: world where
  "stopped_world =
     \<lparr>charm_config = [''scrape-interval'' \<mapsto> CStr ''30s'', ''listen-address'' \<mapsto> CStr ''0.0.0.0:9091''],
      consumer_jobs = [],
      config_file = Some PNone,
      config_writes = 7,
      service_active = False,
      restarts_issued = 2,
      binary_present = True,
      status = BlockedStatus ''Prometheus service not running'',
      probe_events = [Sleep 2],
      write_fails = False,
      restart_fails = True,
      active_after_failed_restart = True,
      endpoint = (\<lambda>k. OtherFailure)\<rparr>"

section \<open>The renderer\<close>

subsection \<open>What the loops compute\<close>

lemma resolve_targets_ok:
  "resolve_targets ts acc = Inr r \<Longrightarrow> r = acc @ ts"
proof (induction ts arbitrary: acc)
  case Nil
  then show ?case by simp
next
  case (Cons t ts)
  from Cons.prems have "resolve_targets ts (acc @ [t]) = Inr r"
    by (simp split: sum.splits if_splits)
  from Cons.IH[OF this] show ?case by simp
qed

lemma resolve_targets_strings:
  "list_all is_string ts \<Longrightarrow> resolve_targets ts acc = Inr (acc @ ts)"
proof (induction ts arbitrary: acc)
  case Nil
  then show ?case by simp
next
  case (Cons t ts)
  then obtain s where "t = PStr s" by (cases t) auto
  with Cons show ?case by simp
qed

lemma process_static_configs_ok:
  "process_static_configs gs acc = Inr r \<Longrightarrow> r = acc @ map rendered_group (kept_groups gs)"
proof (induction gs arbitrary: acc)
  case Nil
  then show ?case by (simp add: kept_groups_def)
next
  case (Cons g gs)
  from Cons.prems obtain targets labels ts res where
    g: "dict_get g ''targets'' (PList []) = Inr targets"
       "dict_get g ''labels'' (PDict []) = Inr labels"
       "py_iter targets = Inr ts" "resolve_targets ts [] = Inr res"
    by (auto split: sum.splits)
  have res: "res = ts" using resolve_targets_ok[OF g(4)] by simp
  have gt: "group_targets g = ts" by (simp add: group_targets_def g)
  have gl: "group_labels g = labels" by (simp add: group_labels_def g)
  show ?case
  proof (cases "ts = []")
    case True
    with Cons.prems g res have "process_static_configs gs acc = Inr r" by simp
    from Cons.IH[OF this] show ?thesis using True gt by (simp add: kept_groups_def)
  next
    case False
    with Cons.prems g res have
      "process_static_configs gs (acc @ [PDict [(''targets'', PList ts), (''labels'', labels)]]) = Inr r"
      by simp
    from Cons.IH[OF this] show ?thesis using False gt gl
      by (simp add: kept_groups_def rendered_group_def)
  qed
qed

lemma well_formed_group_steps:
  assumes "well_formed_group g"
  shows "\<exists>targets labels ts.
           dict_get g ''targets'' (PList []) = Inr targets \<and>
           dict_get g ''labels'' (PDict []) = Inr labels \<and>
           py_iter targets = Inr ts \<and> list_all is_string ts"
proof -
  from assms obtain kvs where g: "g = PDict kvs" by (cases g) auto
  show ?thesis
  proof (cases "map_of kvs ''targets''")
    case None
    then show ?thesis by (simp add: g)
  next
    case (Some t)
    with assms g obtain ts where "t = PList ts" "list_all is_string ts"
      by (cases t) auto
    with Some show ?thesis by (simp add: g)
  qed
qed

lemma process_static_configs_well_formed:
  "list_all well_formed_group gs \<Longrightarrow>
   process_static_configs gs acc = Inr (acc @ map rendered_group (kept_groups gs))"
proof (induction gs arbitrary: acc)
  case Nil
  then show ?case by (simp add: kept_groups_def)
next
  case (Cons g gs)
  then have wf: "well_formed_group g" and rest: "list_all well_formed_group gs" by simp_all
  from well_formed_group_steps[OF wf] obtain targets labels ts where
    g: "dict_get g ''targets'' (PList []) = Inr targets"
       "dict_get g ''labels'' (PDict []) = Inr labels"
       "py_iter targets = Inr ts" "list_all is_string ts"
    by blast
  have res: "resolve_targets ts [] = Inr ts" using resolve_targets_strings[OF g(4), of "[]"] by simp
  have gt: "group_targets g = ts" by (simp add: group_targets_def g)
  have gl: "group_labels g = labels" by (simp add: group_labels_def g)
  show ?case
    using Cons.IH[OF rest] g res gt gl
    by (simp add: kept_groups_def rendered_group_def)
qed

text \<open>Whenever the per-job build returns, it returns what the specification describes.\<close>

lemma build_job_config_ok:
  assumes "build_job_config n d = Inr c"
  shows "c = (if kept_groups (job_groups d) = [] then PNone else rendered_job n d)"
proof -
  from assms obtain kvs where d: "d = PDict kvs"
    by (cases d) (auto simp: build_job_config_def)
  from assms d obtain configs processed where
    it: "py_iter (case map_of kvs ''static_configs'' of None \<Rightarrow> PList [] | Some v \<Rightarrow> v) = Inr configs"
    and pr: "process_static_configs configs [] = Inr processed"
    by (auto simp: build_job_config_def split: sum.splits)
  have jg: "job_groups (PDict kvs) = configs" using it by (simp add: job_groups_def)
  have p: "processed = map rendered_group (kept_groups configs)"
    using process_static_configs_ok[OF pr] by simp
  show ?thesis
  proof (cases "kept_groups configs = []")
    case True
    with assms it pr p show ?thesis unfolding d by (simp add: build_job_config_def jg)
  next
    case False
    with assms it pr p jg show ?thesis unfolding d
      by (auto simp: build_job_config_def rendered_job_def optional_entry_def
               split: option.splits)
  qed
qed

text \<open>On a well-formed job descriptor the per-job build does return.\<close>

lemma build_job_config_well_formed:
  assumes "well_formed_job d"
  shows "build_job_config n d =
           Inr (if kept_groups (job_groups d) = [] then PNone else rendered_job n d)"
proof -
  from assms obtain kvs where d: "d = PDict kvs" by (cases d) auto
  have "\<exists>configs. py_iter (case map_of kvs ''static_configs'' of None \<Rightarrow> PList [] | Some v \<Rightarrow> v)
           = Inr configs \<and> list_all well_formed_group configs"
  proof (cases "map_of kvs ''static_configs''")
    case None
    then show ?thesis by simp
  next
    case (Some v)
    with assms d obtain gs where "v = PList gs" "list_all well_formed_group gs"
      by (cases v) auto
    with Some show ?thesis by simp
  qed
  then obtain configs where
    it: "py_iter (case map_of kvs ''static_configs'' of None \<Rightarrow> PList [] | Some v \<Rightarrow> v) = Inr configs"
    and wf: "list_all well_formed_group configs" by blast
  have pr: "process_static_configs configs [] = Inr (map rendered_group (kept_groups configs))"
    using process_static_configs_well_formed[OF wf, of "[]"] by simp
  have "\<exists>c. build_job_config n d = Inr c"
    using d it pr by (auto simp: build_job_config_def split: option.splits)
  then obtain c where c: "build_job_config n d = Inr c" by blast
  from build_job_config_ok[OF c] c show ?thesis by simp
qed

lemma truthy_rendered_job: "truthy (rendered_job n d)"
  by (simp add: rendered_job_def)

lemma map_filter_app:
  "List.map_filter f (xs @ ys) = List.map_filter f xs @ List.map_filter f ys"
  by (induction xs) (simp_all split: option.splits)

lemma scrape_jobs_loop_append:
  "scrape_jobs_loop jobs configs = configs @ List.map_filter job_contribution jobs"
proof (induction jobs arbitrary: configs)
  case Nil
  show ?case by simp
next
  case (Cons j jobs)
  obtain n d where j: "j = (n, d)" by (cases j)
  show ?case
    by (simp add: j Cons.IH job_contribution_def split: sum.splits)
qed

lemma build_scrape_configs_eq:
  "build_scrape_configs jobs = build_self_monitoring_job # List.map_filter job_contribution jobs"
  by (simp add: build_scrape_configs_def scrape_jobs_loop_append)

lemma example_job_groups:
  "kept_groups (job_groups example_job) =
     [PDict [(''targets'', PList [PStr ''10.0.0.1:9100'']), (''labels'', PDict [(''env'', PStr ''a'')])],
      PDict [(''targets'', PList [PStr ''*:9391''])]]"
  by (simp add: example_job_def job_groups_def kept_groups_def group_targets_def)

lemma build_good_job_a: "build_job_config (PStr ''app-a'') good_job_a = Inr rendered_a"
  by (simp add: build_job_config_def good_job_a_def rendered_a_def)

lemma build_good_job_b: "build_job_config (PStr ''app-b'') good_job_b = Inr rendered_b"
  by (simp add: build_job_config_def good_job_b_def rendered_b_def)

lemma build_bad_job: "build_job_config (PStr ''bad'') bad_job = Inl TypeError"
  by (simp add: build_job_config_def bad_job_def)

subsection \<open>The self-monitoring job\<close>

text \<open>
  Claim C1, evaluated on the code. The self-monitoring job has exactly one static target
  group with the single target \<^verbatim>\<open>localhost:9090\<close>, whatever the configuration. With
  \<^verbatim>\<open>listen-address\<close> set to \<^verbatim>\<open>0.0.0.0:9091\<close> the process is started with
  \<^verbatim>\<open>--web.listen-address=0.0.0.0:9091\<close> and the status probe asks port 9091, while the
  self-monitoring job still points at port 9090: the target is not the listen address of
  the managed process.
\<close>

theorem self_monitoring_target_ignores_listen_address:
  "dict_index build_self_monitoring_job ''static_configs'' =
     Inr (PList [PDict [(''targets'', PList [PStr ''localhost:9090''])]])
   \<and> build_scrape_configs [] ! 0 = build_self_monitoring_job
   \<and> service_args moved_port_config ! 4 = ''--web.listen-address=0.0.0.0:9091''
   \<and> split_last (config_get moved_port_config ''listen-address'' (CStr ''0.0.0.0:9090''))
       = Inr ''9091''
   \<and> snd (get_active_targets_from_api moved_port_config (\<lambda>k. OtherFailure))
       = [Request ''http://localhost:9091/api/v1/targets'']"
proof -
  have 1: "dict_index build_self_monitoring_job ''static_configs'' =
     Inr (PList [PDict [(''targets'', PList [PStr ''localhost:9090''])]])"
    by (simp add: build_self_monitoring_job_def)
  have 2: "build_scrape_configs [] ! 0 = build_self_monitoring_job"
    by (simp add: build_scrape_configs_def)
  have 3: "service_args moved_port_config ! 4 = ''--web.listen-address=0.0.0.0:9091''"
    by (simp add: service_args_def moved_port_config_def config_get_def Let_def)
  have 4: "split_last (config_get moved_port_config ''listen-address'' (CStr ''0.0.0.0:9090''))
       = Inr ''9091''"
    by (simp add: moved_port_config_def config_get_def)
  have 5: "snd (get_active_targets_from_api moved_port_config (\<lambda>k. OtherFailure))
       = [Request ''http://localhost:9091/api/v1/targets'']"
    by (simp add: get_active_targets_from_api_def 4 upt_rec)
  from 1 2 3 4 5 show ?thesis by blast
qed

text \<open>
  Claim C2. For every job collection and every configuration, the scrape-job list of
  the rendered document is not empty and its element at position 0 is the
  self-monitoring job, whose name is \<^verbatim>\<open>prometheus\<close>.
\<close>

theorem self_monitoring_job_first:
  "dict_index (config_document cfg jobs) ''scrape_configs'' = Inr (PList (build_scrape_configs jobs))
   \<and> build_scrape_configs jobs \<noteq> []
   \<and> build_scrape_configs jobs ! 0 = build_self_monitoring_job
   \<and> dict_index build_self_monitoring_job ''job_name'' = Inr (PStr ''prometheus'')"
proof -
  have "build_scrape_configs jobs = build_self_monitoring_job # List.map_filter job_contribution jobs"
    by (rule build_scrape_configs_eq)
  then show ?thesis
    by (simp add: config_document_def build_self_monitoring_job_def)
qed

subsection \<open>Filtering of empty target groups\<close>

text \<open>
  Claim C3. For a well-formed job descriptor: the rendered static configs are exactly
  the groups with a non-empty target set, in their order; a job of which no group is
  left (or that has none) returns \<^verbatim>\<open>None\<close> and adds nothing to the scrape-config list;
  a job with at least one non-empty group adds one scrape job with those groups.
\<close>

theorem empty_target_groups_dropped:
  assumes "well_formed_job d"
  shows "build_job_config n d =
           (if kept_groups (job_groups d) = [] then Inr PNone else Inr (rendered_job n d))
         \<and> scrape_jobs_loop ((n, d) # rest) configs =
             scrape_jobs_loop rest
               (if kept_groups (job_groups d) = [] then configs else configs @ [rendered_job n d])
         \<and> dict_index (rendered_job n d) ''static_configs'' =
             Inr (PList (map rendered_group (kept_groups (job_groups d))))
         \<and> kept_groups (job_groups d) = filter (\<lambda>g. group_targets g \<noteq> []) (job_groups d)"
  using build_job_config_well_formed[OF assms, of n]
  by (simp add: truthy_rendered_job rendered_job_def kept_groups_def)

text \<open>
  An instance: of four groups, the first has an empty target list and the third no
  targets at all; the second and the fourth are rendered, in that order, the wildcard
  target unchanged.
\<close>

theorem empty_target_groups_dropped_witness:
  "well_formed_job example_job
   \<and> build_job_config (PStr ''app-a'') example_job =
       Inr (PDict [(''job_name'', PStr ''app-a''),
                   (''metrics_path'', PStr ''/metrics''),
                   (''static_configs'',
                      PList [PDict [(''targets'', PList [PStr ''10.0.0.1:9100'']),
                                    (''labels'', PDict [(''env'', PStr ''a'')])],
                             PDict [(''targets'', PList [PStr ''*:9391'']),
                                    (''labels'', PDict [])]])])"
proof -
  have wf: "well_formed_job example_job" by (simp add: example_job_def)
  have r: "rendered_job (PStr ''app-a'') example_job =
       PDict [(''job_name'', PStr ''app-a''),
                   (''metrics_path'', PStr ''/metrics''),
                   (''static_configs'',
                      PList [PDict [(''targets'', PList [PStr ''10.0.0.1:9100'']),
                                    (''labels'', PDict [(''env'', PStr ''a'')])],
                             PDict [(''targets'', PList [PStr ''*:9391'']),
                                    (''labels'', PDict [])]])]"
    unfolding rendered_job_def example_job_groups
    by (simp add: example_job_def optional_entry_def rendered_group_def group_targets_def
          group_labels_def)
  show ?thesis
    using empty_target_groups_dropped[OF wf, of "PStr ''app-a''" "[]" "[]"] wf
    by (simp add: example_job_groups r)
qed

subsection \<open>Malformed jobs\<close>

text \<open>
  Claim C4. Building the scrape-config list returns a list for every job collection:
  it is the self-monitoring job followed, in order, by the configuration of every job
  whose build returns one. A job whose build raises is dropped and the jobs after it
  are still processed.
\<close>

theorem bad_jobs_dropped_build_continues:
  "build_scrape_configs jobs = build_self_monitoring_job # List.map_filter job_contribution jobs
   \<and> (build_job_config n d = Inl e \<longrightarrow>
        build_scrape_configs (pre @ (n, d) # post) = build_scrape_configs (pre @ post))
   \<and> (build_job_config n d = Inr c \<and> truthy c \<longrightarrow>
        build_scrape_configs (pre @ (n, d) # post) =
          build_scrape_configs pre @ c # List.map_filter job_contribution post)"
  by (simp add: build_scrape_configs_eq map_filter_app job_contribution_def)

text \<open>
  An instance: a job whose \<^verbatim>\<open>static_configs\<close> is a number raises \<^verbatim>\<open>TypeError\<close>; the
  jobs before and after it are rendered.
\<close>

theorem bad_jobs_dropped_build_continues_witness:
  "build_job_config (PStr ''bad'') bad_job = Inl TypeError
   \<and> build_scrape_configs
        [(PStr ''app-a'', good_job_a), (PStr ''bad'', bad_job), (PStr ''app-b'', good_job_b)]
       = [build_self_monitoring_job, rendered_a, rendered_b]"
proof -
  have "build_scrape_configs
          ([(PStr ''app-a'', good_job_a)] @ (PStr ''bad'', bad_job) # [(PStr ''app-b'', good_job_b)])
        = build_scrape_configs ([(PStr ''app-a'', good_job_a)] @ [(PStr ''app-b'', good_job_b)])"
    using bad_jobs_dropped_build_continues
            [of "[]" "PStr ''bad''" bad_job TypeError
                "[(PStr ''app-a'', good_job_a)]" "[(PStr ''app-b'', good_job_b)]"]
          build_bad_job
    by blast
  moreover have "build_scrape_configs ([(PStr ''app-a'', good_job_a)] @ [(PStr ''app-b'', good_job_b)])
        = [build_self_monitoring_job, rendered_a, rendered_b]"
    by (simp add: build_scrape_configs_eq job_contribution_def build_good_job_a build_good_job_b
          rendered_a_def rendered_b_def)
  ultimately show ?thesis using build_bad_job by simp
qed

subsection \<open>Labels of rendered groups\<close>

text \<open>
  Claim C10. When the per-job build returns a scrape job, its static configs are the
  rendered surviving groups, and every one of them has a \<^verbatim>\<open>labels\<close> key: the labels of
  the input group when it has some, an explicit empty mapping when it has none. The
  relabel keys, in contrast, are absent from the rendered job when the descriptor has
  none.
\<close>

theorem rendered_groups_carry_labels:
  assumes "build_job_config n d = Inr c" and "c \<noteq> PNone"
  shows "dict_index c ''static_configs'' =
           Inr (PList (map rendered_group (kept_groups (job_groups d))))
         \<and> kept_groups (job_groups d) \<noteq> []
         \<and> list_all (\<lambda>g. dict_contains g ''labels'' = Inr True)
              (map rendered_group (kept_groups (job_groups d)))
         \<and> (\<forall>g l. dict_index g ''labels'' = Inr l \<longrightarrow>
                dict_index (rendered_group g) ''labels'' = Inr l)
         \<and> (\<forall>g. dict_contains g ''labels'' = Inr False \<longrightarrow>
                dict_index (rendered_group g) ''labels'' = Inr (PDict []))
         \<and> (dict_contains d ''relabel_configs'' = Inr False \<longrightarrow>
                dict_contains c ''relabel_configs'' = Inr False)
         \<and> (dict_contains d ''metric_relabel_configs'' = Inr False \<longrightarrow>
                dict_contains c ''metric_relabel_configs'' = Inr False)"
proof -
  from build_job_config_ok[OF assms(1)] assms(2)
  have k: "kept_groups (job_groups d) \<noteq> []" and c: "c = rendered_job n d"
    by (auto split: if_splits)
  have 1: "dict_index c ''static_configs'' =
           Inr (PList (map rendered_group (kept_groups (job_groups d))))"
    by (simp add: c rendered_job_def)
  have 2: "list_all (\<lambda>g. dict_contains g ''labels'' = Inr True)
              (map rendered_group (kept_groups (job_groups d)))"
    by (simp add: list_all_iff rendered_group_def)
  have 3: "dict_index g ''labels'' = Inr l \<Longrightarrow> dict_index (rendered_group g) ''labels'' = Inr l"
    for g l
    by (cases g) (auto simp: rendered_group_def group_labels_def split: option.splits)
  have 4: "dict_contains g ''labels'' = Inr False \<Longrightarrow>
           dict_index (rendered_group g) ''labels'' = Inr (PDict [])" for g
    by (cases g) (auto simp: rendered_group_def group_labels_def split: option.splits)
  have 5: "dict_contains d ''relabel_configs'' = Inr False \<Longrightarrow>
           dict_contains c ''relabel_configs'' = Inr False"
    by (cases d) (auto simp: c rendered_job_def optional_entry_def split: option.splits)
  have 6: "dict_contains d ''metric_relabel_configs'' = Inr False \<Longrightarrow>
           dict_contains c ''metric_relabel_configs'' = Inr False"
    by (cases d) (auto simp: c rendered_job_def optional_entry_def split: option.splits)
  from k 1 2 3 4 5 6 show ?thesis by blast
qed

text \<open>
  An instance: a group given without labels is rendered with \<^verbatim>\<open>labels: {}\<close>, and the
  rendered job has no \<^verbatim>\<open>relabel_configs\<close> key.
\<close>

theorem rendered_groups_carry_labels_witness:
  "build_job_config (PStr ''app-a'') good_job_a = Inr rendered_a \<and> rendered_a \<noteq> PNone
   \<and> dict_contains (PDict [(''targets'', PList [PStr ''10.0.0.1:9100''])]) ''labels'' = Inr False
   \<and> dict_index rendered_a ''static_configs'' =
       Inr (PList [PDict [(''targets'', PList [PStr ''10.0.0.1:9100'']), (''labels'', PDict [])]])
   \<and> dict_contains rendered_a ''relabel_configs'' = Inr False"
proof -
  have ne: "rendered_a \<noteq> PNone" by (simp add: rendered_a_def)
  have kg: "kept_groups (job_groups good_job_a) = [PDict [(''targets'', PList [PStr ''10.0.0.1:9100''])]]"
    by (simp add: good_job_a_def job_groups_def kept_groups_def group_targets_def)
  have rg: "rendered_group (PDict [(''targets'', PList [PStr ''10.0.0.1:9100''])]) =
            PDict [(''targets'', PList [PStr ''10.0.0.1:9100'']), (''labels'', PDict [])]"
    by (simp add: rendered_group_def group_targets_def group_labels_def)
  have nr: "dict_contains good_job_a ''relabel_configs'' = Inr False"
    by (simp add: good_job_a_def)
  from rendered_groups_carry_labels[OF build_good_job_a ne] nr
  show ?thesis by (simp add: build_good_job_a ne kg rg)
qed

subsection \<open>Determinism\<close>

text \<open>
  Claim C8. The rendered document depends on the job collection and on the three timing
  options only: two states of the unit that agree on these options render the same
  document for the same jobs, whatever else differs between them (other options, the
  file's previous content, the state of the process), and rendering a second time
  leaves the file as the first render wrote it.
\<close>

theorem rendering_is_deterministic:
  assumes "charm_config w1 ''scrape-interval'' = charm_config w2 ''scrape-interval''"
      and "charm_config w1 ''scrape-timeout'' = charm_config w2 ''scrape-timeout''"
      and "charm_config w1 ''evaluation-interval'' = charm_config w2 ''evaluation-interval''"
  shows "config_document (charm_config w1) jobs = config_document (charm_config w2) jobs
         \<and> (\<not> write_fails w1 \<and> \<not> write_fails w2 \<longrightarrow>
              config_file (snd (generate_config w1 jobs)) = config_file (snd (generate_config w2 jobs))
              \<and> config_file (snd (generate_config w1 jobs)) =
                  Some (config_document (charm_config w1) jobs))
         \<and> config_file (snd (generate_config (snd (generate_config w1 jobs)) jobs)) =
             config_file (snd (generate_config w1 jobs))"
proof -
  have d: "config_document (charm_config w1) jobs = config_document (charm_config w2) jobs"
    using assms by (simp add: config_document_def build_global_config_def config_get_def)
  show ?thesis using d by (simp add: generate_config_def Let_def)
qed

text \<open>
  An instance: two states with different options, files and process states, and the
  same timing options.
\<close>

theorem rendering_is_deterministic_witness:
  "charm_config running_world ''scrape-interval'' = charm_config stopped_world ''scrape-interval''
   \<and> charm_config running_world ''scrape-timeout'' = charm_config stopped_world ''scrape-timeout''
   \<and> charm_config running_world ''evaluation-interval'' =
       charm_config stopped_world ''evaluation-interval''
   \<and> charm_config running_world ''listen-address'' \<noteq> charm_config stopped_world ''listen-address''
   \<and> config_file running_world \<noteq> config_file stopped_world
   \<and> service_active running_world \<noteq> service_active stopped_world
   \<and> config_file (snd (generate_config running_world [(PStr ''app'', named_app)])) =
       config_file (snd (generate_config stopped_world [(PStr ''app'', named_app)]))"
proof -
  have a: "charm_config running_world ''scrape-interval'' =
           charm_config stopped_world ''scrape-interval''"
    by (simp add: running_world_def stopped_world_def)
  have b: "charm_config running_world ''scrape-timeout'' =
           charm_config stopped_world ''scrape-timeout''"
    by (simp add: running_world_def stopped_world_def)
  have c: "charm_config running_world ''evaluation-interval'' =
           charm_config stopped_world ''evaluation-interval''"
    by (simp add: running_world_def stopped_world_def)
  have f: "\<not> write_fails running_world \<and> \<not> write_fails stopped_world"
    by (simp add: running_world_def stopped_world_def)
  have g: "charm_config running_world ''listen-address'' \<noteq>
             charm_config stopped_world ''listen-address''
           \<and> config_file running_world \<noteq> config_file stopped_world
           \<and> service_active running_world \<noteq> service_active stopped_world"
    by (simp add: running_world_def stopped_world_def)
  from rendering_is_deterministic[OF a b c, of "[(PStr ''app'', named_app)]"] a b c f g
  show ?thesis by simp
qed

section \<open>The job collection\<close>

lemma key_eq_str: "key_eq a (PStr s) \<longleftrightarrow> a = PStr s"
  by (cases a) (auto simp: key_eq_def)

lemma key_eq_str2: "key_eq (PStr s) a \<longleftrightarrow> a = PStr s"
  by (cases a) (auto simp: key_eq_def)

lemma dict_store_lookup_str:
  "map_of (dict_store d k v) (PStr s) = (if k = PStr s then Some v else map_of d (PStr s))"
proof (induction d)
  case Nil
  show ?case by auto
next
  case (Cons p d)
  obtain k' v' where p: "p = (k', v')" by (cases p)
  show ?case using Cons.IH by (auto simp: p key_eq_str key_eq_str2)
qed

lemma dict_store_keys:
  "map (key_norm \<circ> fst) (dict_store d k v) =
     (if key_norm k \<in> set (map (key_norm \<circ> fst) d) then map (key_norm \<circ> fst) d
      else map (key_norm \<circ> fst) d @ [key_norm k])"
proof (induction d)
  case Nil
  show ?case by simp
next
  case (Cons p d)
  obtain k' v' where p: "p = (k', v')" by (cases p)
  show ?case using Cons.IH by (auto simp: p key_eq_def)
qed

lemma dict_store_distinct:
  "distinct (map (key_norm \<circ> fst) d) \<Longrightarrow> distinct (map (key_norm \<circ> fst) (dict_store d k v))"
  by (simp add: dict_store_keys)

lemma collect_jobs_distinct:
  "collect_jobs js acc = Inr coll \<Longrightarrow> distinct (map (key_norm \<circ> fst) acc) \<Longrightarrow>
   distinct (map (key_norm \<circ> fst) coll)"
proof (induction js arbitrary: acc)
  case Nil
  then show ?case by simp
next
  case (Cons j js)
  from Cons.prems(1) obtain k where
    k: "dict_get j ''job_name'' (PStr ''unknown'') = Inr k" "hashable k"
    and rest: "collect_jobs js (dict_store acc k j) = Inr coll"
    by (auto simp: dict_setitem_def split: sum.splits if_splits)
  from Cons.IH[OF rest dict_store_distinct[OF Cons.prems(2)]] show ?case .
qed

text \<open>Under a string key, the collection holds the last job stored under that key.\<close>

lemma collect_jobs_lookup:
  "collect_jobs js acc = Inr coll \<Longrightarrow>
   map_of coll (PStr s) =
     (if filter (\<lambda>j. job_key j = PStr s) js = [] then map_of acc (PStr s)
      else Some (last (filter (\<lambda>j. job_key j = PStr s) js)))"
proof (induction js arbitrary: acc)
  case Nil
  then show ?case by simp
next
  case (Cons j js)
  from Cons.prems obtain k where
    k: "dict_get j ''job_name'' (PStr ''unknown'') = Inr k"
    and rest: "collect_jobs js (dict_store acc k j) = Inr coll"
    by (auto simp: dict_setitem_def split: sum.splits if_splits)
  have jk: "job_key j = k" by (simp add: job_key_def k)
  show ?case using Cons.IH[OF rest] by (simp add: jk dict_store_lookup_str)
qed

lemma collect_jobs_succeeds:
  "list_all storable_job js \<Longrightarrow> \<exists>coll. collect_jobs js acc = Inr coll"
proof (induction js arbitrary: acc)
  case Nil
  show ?case by simp
next
  case (Cons j js)
  then have sj: "storable_job j" and rest: "list_all storable_job js" by simp_all
  from sj obtain kvs where j: "j = PDict kvs" by (cases j) (auto simp: storable_job_def)
  from sj have h: "hashable (case map_of kvs ''job_name'' of None \<Rightarrow> PStr ''unknown'' | Some v \<Rightarrow> v)"
    by (simp add: storable_job_def job_key_def j)
  show ?case using Cons.IH[OF rest] h by (simp add: j dict_setitem_def)
qed

lemma distinct_filter_le_1:
  "distinct (map f xs) \<Longrightarrow> length (filter (\<lambda>x. f x = c) xs) \<le> 1"
proof (induction xs)
  case Nil
  show ?case by simp
next
  case (Cons a xs)
  then have d: "distinct (map f xs)" and n: "f a \<notin> f ` set xs" by simp_all
  show ?case
  proof (cases "f a = c")
    case True
    have "f x \<noteq> c" if "x \<in> set xs" for x
    proof
      assume "f x = c"
      with True have "f a = f x" by simp
      with that have "f a \<in> f ` set xs" by blast
      with n show False by contradiction
    qed
    then have "filter (\<lambda>x. f x = c) xs = []" by (simp add: filter_empty_conv)
    with True show ?thesis by simp
  next
    case False
    with Cons.IH[OF d] show ?thesis by simp
  qed
qed

lemma map_of_Some_filter:
  "map_of xs k = Some v \<Longrightarrow> filter (\<lambda>kv. fst kv = k) xs \<noteq> []"
  by (induction xs) (auto split: if_splits)

text \<open>
  Claim C9. When every job of the event source is a dictionary with a hashable name,
  the collection is built, a job without a name has the key \<^verbatim>\<open>unknown\<close>, the
  collection has at most one entry under that key, and when some job has that key
  (because it has no name, or is named so) the one entry holds the last such job.
\<close>

theorem nameless_jobs_collide:
  assumes "list_all storable_job js"
  shows "\<exists>coll. get_scrape_jobs js = Inr coll
           \<and> (\<forall>j\<in>set js. dict_contains j ''job_name'' = Inr False \<longrightarrow> job_key j = PStr ''unknown'')
           \<and> length (filter (\<lambda>kv. fst kv = PStr ''unknown'') coll) \<le> 1
           \<and> (unknown_jobs js \<noteq> [] \<longrightarrow>
                map_of coll (PStr ''unknown'') = Some (last (unknown_jobs js))
                \<and> length (filter (\<lambda>kv. fst kv = PStr ''unknown'') coll) = 1)"
proof -
  from collect_jobs_succeeds[OF assms, of "[]"] obtain coll where
    c: "collect_jobs js [] = Inr coll" by blast
  have d: "distinct (map (key_norm \<circ> fst) coll)"
    using collect_jobs_distinct[OF c] by simp
  have eq: "(fst kv = PStr ''unknown'') = ((key_norm \<circ> fst) kv = PStr ''unknown'')"
    for kv :: "pyval \<times> pyval"
    by (cases "fst kv") auto
  have le: "length (filter (\<lambda>kv. fst kv = PStr ''unknown'') coll) \<le> 1"
    using distinct_filter_le_1[OF d, of "PStr ''unknown''"] by (simp only: eq)
  have nameless: "dict_contains j ''job_name'' = Inr False \<Longrightarrow> job_key j = PStr ''unknown''" for j
    by (cases j) (auto simp: job_key_def split: option.splits)
  have last: "unknown_jobs js \<noteq> [] \<Longrightarrow>
        map_of coll (PStr ''unknown'') = Some (last (unknown_jobs js))
        \<and> length (filter (\<lambda>kv. fst kv = PStr ''unknown'') coll) = 1"
  proof -
    assume ne: "unknown_jobs js \<noteq> []"
    with collect_jobs_lookup[OF c, of "''unknown''"]
    have m: "map_of coll (PStr ''unknown'') = Some (last (unknown_jobs js))"
      by (simp add: unknown_jobs_def)
    from map_of_Some_filter[OF m] le
    have "length (filter (\<lambda>kv. fst kv = PStr ''unknown'') coll) = 1"
      by (cases "filter (\<lambda>kv. fst kv = PStr ''unknown'') coll") auto
    with m show ?thesis by simp
  qed
  show ?thesis using c le nameless last by (auto simp: get_scrape_jobs_def)
qed

text \<open>
  An instance: two jobs without a name and one named \<^verbatim>\<open>unknown\<close>, with another job
  between them. The entry keeps the place of the first and holds the last.
\<close>

theorem nameless_jobs_collide_witness:
  "list_all storable_job [nameless_1, named_app, nameless_2, named_unknown]
   \<and> get_scrape_jobs [nameless_1, named_app, nameless_2, named_unknown] =
       Inr [(PStr ''unknown'', named_unknown), (PStr ''app'', named_app)]
   \<and> unknown_jobs [nameless_1, named_app, nameless_2, named_unknown] =
       [nameless_1, nameless_2, named_unknown]"
proof -
  have s: "list_all storable_job [nameless_1, named_app, nameless_2, named_unknown]"
    by (simp add: storable_job_def job_key_def nameless_1_def nameless_2_def named_unknown_def
          named_app_def)
  have u: "unknown_jobs [nameless_1, named_app, nameless_2, named_unknown] =
       [nameless_1, nameless_2, named_unknown]"
    by (simp add: unknown_jobs_def job_key_def nameless_1_def nameless_2_def named_unknown_def
          named_app_def)
  have g: "get_scrape_jobs [nameless_1, named_app, nameless_2, named_unknown] =
       Inr [(PStr ''unknown'', named_unknown), (PStr ''app'', named_app)]"
    by (simp add: get_scrape_jobs_def dict_setitem_def key_eq_def nameless_1_def nameless_2_def
          named_unknown_def named_app_def)
  from nameless_jobs_collide[OF s] s u g show ?thesis by simp
qed

section \<open>The status probe\<close>

lemma upt_3: "[0..<3] = [0, 1, 2]"
  by (simp add: upt_rec)

text \<open>The loop makes at most one request per attempt.\<close>

lemma retry_loop_requests_bounded:
  "length (filter is_request (snd (retry_loop ep port m attempts tr)))
     \<le> length (filter is_request tr) + length attempts"
proof (induction attempts arbitrary: tr)
  case Nil
  show ?case by simp
next
  case (Cons a attempts)
  have 1: "length (filter is_request (snd (retry_loop ep port m attempts (tr @ [Request u]))))
           \<le> Suc (length (filter is_request tr)) + length attempts" for u
    using Cons.IH[of "tr @ [Request u]"] by simp
  have 2: "length (filter is_request (snd (retry_loop ep port m attempts (tr @ [Request u, Sleep 2]))))
           \<le> Suc (length (filter is_request tr)) + length attempts" for u
    using Cons.IH[of "tr @ [Request u, Sleep 2]"] by simp
  show ?case
    using 1 2 by (cases "ep a") (auto simp: Let_def split: option.splits sum.splits)
qed

lemma probe_requests_bounded:
  "length (filter is_request (snd (get_active_targets_from_api cfg ep))) \<le> 3"
proof (cases "split_last (config_get cfg ''listen-address'' (CStr ''0.0.0.0:9090''))")
  case (Inl e)
  then show ?thesis by (simp add: get_active_targets_from_api_def)
next
  case (Inr port)
  have "length (filter is_request (snd (retry_loop ep port 3 [0..<3] []))) \<le> 3"
    using retry_loop_requests_bounded[of ep port 3 "[0..<3]" "[]"] by simp
  then show ?thesis
    using Inr
    by (cases "retry_loop ep port 3 [0..<3] []")
       (auto simp: get_active_targets_from_api_def split: sum.splits option.splits)
qed

lemma non_self_targets_well_formed:
  "list_all well_formed_target ts \<Longrightarrow>
   non_self_targets ts acc = Inr (acc @ filter (\<lambda>t. job_label t \<noteq> PStr ''prometheus'') ts)"
proof (induction ts arbitrary: acc)
  case Nil
  show ?case by simp
next
  case (Cons t ts)
  then have wf: "well_formed_target t" and rest: "list_all well_formed_target ts" by simp_all
  from wf obtain kvs where t: "t = PDict kvs" by (cases t) auto
  have "\<exists>labels. dict_get t ''labels'' (PDict []) = Inr (PDict labels)"
  proof (cases "map_of kvs ''labels''")
    case None
    then show ?thesis by (simp add: t)
  next
    case (Some v)
    with wf t obtain ls where "v = PDict ls" by (cases v) auto
    with Some show ?thesis by (simp add: t)
  qed
  then obtain labels where l: "dict_get t ''labels'' (PDict []) = Inr (PDict labels)" by blast
  have jl: "job_label t = (case map_of labels ''job'' of None \<Rightarrow> PNone | Some v \<Rightarrow> v)"
    by (simp add: job_label_def l)
  show ?case using Cons.IH[OF rest] l jl by simp
qed

lemma count_active_targets_well_formed:
  assumes "well_formed_response data"
  shows "count_active_targets data =
           Inr (length (filter (\<lambda>t. job_label t \<noteq> PStr ''prometheus'') (active_targets data)))"
proof -
  from assms obtain kvs where data: "data = PDict kvs" by (cases data) auto
  have "\<exists>ts. active_targets data = ts \<and> list_all well_formed_target ts \<and>
          (\<exists>d a. dict_get data ''data'' (PDict []) = Inr d \<and>
                 dict_get d ''activeTargets'' (PList []) = Inr a \<and> py_iter a = Inr ts)"
  proof (cases "map_of kvs ''data''")
    case None
    then show ?thesis by (simp add: data active_targets_def)
  next
    case (Some v)
    with assms data obtain d where v: "v = PDict d" by (cases v) auto
    show ?thesis
    proof (cases "map_of d ''activeTargets''")
      case None
      with Some v show ?thesis by (simp add: data active_targets_def)
    next
      case (Some a)
      with assms data \<open>map_of kvs ''data'' = Some v\<close> v
      obtain ts where "a = PList ts" "list_all well_formed_target ts" by (cases a) auto
      with Some \<open>map_of kvs ''data'' = Some v\<close> v show ?thesis
        by (simp add: data active_targets_def)
    qed
  qed
  then obtain ts d a where ts: "active_targets data = ts" "list_all well_formed_target ts"
    "dict_get data ''data'' (PDict []) = Inr d"
    "dict_get d ''activeTargets'' (PList []) = Inr a" "py_iter a = Inr ts" by blast
  show ?thesis
    using non_self_targets_well_formed[OF ts(2), of "[]"] ts
    by (simp add: count_active_targets_def)
qed

lemma retry_loop_skip:
  assumes "transient (ep a)"
  shows "\<exists>tr'. retry_loop ep port m (a # rest) tr = retry_loop ep port m rest tr'"
  using assms by (cases "ep a") (auto simp: Let_def)

lemma retry_loop_first_success:
  assumes "list_all (\<lambda>a. transient (ep a)) pre"
      and "ep k = Response 200 (Some data)" and "count_active_targets data = Inr n"
  shows "fst (retry_loop ep port m (pre @ k # post) tr) = Inr (Some n)"
  using assms(1)
proof (induction pre arbitrary: tr)
  case Nil
  show ?case using assms(2,3) by (simp add: Let_def)
next
  case (Cons a pre)
  then have a: "transient (ep a)" and rest: "list_all (\<lambda>a. transient (ep a)) pre" by simp_all
  from retry_loop_skip[of ep a, OF a] obtain tr' where
    "retry_loop ep port m (a # (pre @ k # post)) tr = retry_loop ep port m (pre @ k # post) tr'"
    by blast
  with Cons.IH[OF rest, of tr'] show ?case by simp
qed

text \<open>
  Claim C5. With a string as listen address, when each of the three attempts ends in
  \<^verbatim>\<open>ConnectionError\<close> or \<^verbatim>\<open>Timeout\<close>, the probe requests the targets URL three times,
  sleeps 2 seconds after the first and after the second request and not after the third,
  and returns 0; the caller then shows the unit as ready with no targets. The probe
  returns a number on every input, and no endpoint makes it send more than three
  requests.
\<close>

theorem bounded_retry_when_unreachable:
  assumes "split_last (config_get cfg ''listen-address'' (CStr ''0.0.0.0:9090'')) = Inr port"
      and "\<forall>k<3. ep k = ConnectionError \<or> ep k = Timeout"
  shows "get_active_targets_from_api cfg ep =
           (0, [Request (targets_url port), Sleep 2,
                Request (targets_url port), Sleep 2,
                Request (targets_url port)])
         \<and> length (filter is_request (snd (get_active_targets_from_api cfg ep))) = 3
         \<and> (\<forall>ep'. length (filter is_request (snd (get_active_targets_from_api cfg ep'))) \<le> 3)
         \<and> (binary_present w \<and> service_active w \<and> charm_config w = cfg \<and> endpoint w = ep \<longrightarrow>
              status (update_status w) = ActiveStatus ''Prometheus ready (no targets)'')"
proof -
  from assms(2) have e: "ep 0 = ConnectionError \<or> ep 0 = Timeout"
    "ep 1 = ConnectionError \<or> ep 1 = Timeout" "ep 2 = ConnectionError \<or> ep 2 = Timeout"
    by simp_all
  have r: "retry_loop ep port 3 [0..<3] [] =
             (Inr None, [Request (targets_url port), Sleep 2,
                Request (targets_url port), Sleep 2,
                Request (targets_url port)])"
    unfolding upt_3 using e by (auto simp: targets_url_def)
  have g: "get_active_targets_from_api cfg ep =
           (0, [Request (targets_url port), Sleep 2,
                Request (targets_url port), Sleep 2,
                Request (targets_url port)])"
    by (simp add: get_active_targets_from_api_def assms(1) r)
  have s: "binary_present w \<and> service_active w \<and> charm_config w = cfg \<and> endpoint w = ep \<Longrightarrow>
           status (update_status w) = ActiveStatus ''Prometheus ready (no targets)''"
    using g by (simp add: update_status_def is_installed_def is_service_running_def)
  show ?thesis using g s probe_requests_bounded by simp
qed

text \<open>An instance: a connection error, a timeout, a connection error.\<close>

theorem bounded_retry_when_unreachable_witness:
  "split_last (config_get Map.empty ''listen-address'' (CStr ''0.0.0.0:9090'')) = Inr ''9090''
   \<and> dead_endpoint 0 = ConnectionError \<and> dead_endpoint 1 = Timeout
   \<and> dead_endpoint 2 = ConnectionError
   \<and> get_active_targets_from_api Map.empty dead_endpoint =
       (0, [Request ''http://localhost:9090/api/v1/targets'', Sleep 2,
            Request ''http://localhost:9090/api/v1/targets'', Sleep 2,
            Request ''http://localhost:9090/api/v1/targets''])"
proof -
  have p: "split_last (config_get Map.empty ''listen-address'' (CStr ''0.0.0.0:9090'')) = Inr ''9090''"
    by (simp add: config_get_def)
  have d: "\<forall>k<3. dead_endpoint k = ConnectionError \<or> dead_endpoint k = Timeout"
    by (simp add: dead_endpoint_def)
  have v: "dead_endpoint 0 = ConnectionError \<and> dead_endpoint 1 = Timeout
           \<and> dead_endpoint 2 = ConnectionError"
    by (simp add: dead_endpoint_def)
  from bounded_retry_when_unreachable[OF p d] v
  show ?thesis by (simp add: p targets_url_def)
qed

text \<open>
  Claim C6. With a string as listen address, when one of the three attempts is answered
  with status 200 and a well-formed body, and the attempts before it were connection
  errors, timeouts or other status codes, the probe returns the number of entries of the
  active-target list whose job label is not the string \<^verbatim>\<open>prometheus\<close>.
\<close>

theorem probe_counts_non_self_targets:
  assumes "split_last (config_get cfg ''listen-address'' (CStr ''0.0.0.0:9090'')) = Inr port"
      and "k < 3"
      and "\<forall>j<k. transient (ep j)"
      and "ep k = Response 200 (Some data)"
      and "well_formed_response data"
  shows "fst (get_active_targets_from_api cfg ep) =
           length (filter (\<lambda>t. job_label t \<noteq> PStr ''prometheus'') (active_targets data))"
proof -
  let ?n = "length (filter (\<lambda>t. job_label t \<noteq> PStr ''prometheus'') (active_targets data))"
  have c: "count_active_targets data = Inr ?n"
    by (rule count_active_targets_well_formed[OF assms(5)])
  from assms(2) have "k = 0 \<or> k = 1 \<or> k = 2" by arith
  then have "\<exists>pre post. [0, 1, 2] = pre @ k # post \<and> list_all (\<lambda>a. transient (ep a)) pre"
  proof (elim disjE)
    assume "k = 0"
    then have "[0, 1, 2] = [] @ k # [1, 2] \<and> list_all (\<lambda>a. transient (ep a)) []" by simp
    then show ?thesis by blast
  next
    assume k: "k = 1"
    with assms(3) have "transient (ep 0)" by simp
    with k have "[0, 1, 2] = [0] @ k # [2] \<and> list_all (\<lambda>a. transient (ep a)) [0]" by simp
    then show ?thesis by blast
  next
    assume k: "k = 2"
    with assms(3) have "transient (ep 0)" "transient (ep 1)" by simp_all
    with k have "[0, 1, 2] = [0, 1] @ k # [] \<and> list_all (\<lambda>a. transient (ep a)) [0, 1]" by simp
    then show ?thesis by blast
  qed
  then obtain pre post where p: "[0, 1, 2] = pre @ k # post"
    "list_all (\<lambda>a. transient (ep a)) pre" by blast
  have "fst (retry_loop ep port 3 [0..<3] []) = Inr (Some ?n)"
    unfolding upt_3 p(1) by (rule retry_loop_first_success[OF p(2) assms(4) c])
  then show ?thesis
    by (cases "retry_loop ep port 3 [0..<3] []")
       (simp add: get_active_targets_from_api_def assms(1))
qed

text \<open>
  An instance: after one connection error, a list with one entry of job
  \<^verbatim>\<open>prometheus\<close> and two others (one of them \<^verbatim>\<open>prometheus-2\<close>) gives 2.
\<close>

theorem probe_counts_non_self_targets_witness:
  "split_last (config_get Map.empty ''listen-address'' (CStr ''0.0.0.0:9090'')) = Inr ''9090''
   \<and> (1::nat) < 3 \<and> transient (example_endpoint 0)
   \<and> example_endpoint 1 = Response 200 (Some example_response)
   \<and> well_formed_response example_response
   \<and> fst (get_active_targets_from_api Map.empty example_endpoint) = 2"
proof -
  have p: "split_last (config_get Map.empty ''listen-address'' (CStr ''0.0.0.0:9090'')) = Inr ''9090''"
    by (simp add: config_get_def)
  have t: "\<forall>j<1. transient (example_endpoint j)" by (simp add: example_endpoint_def)
  have e: "example_endpoint 1 = Response 200 (Some example_response)"
    by (simp add: example_endpoint_def)
  have wf: "well_formed_response example_response" by (simp add: example_response_def)
  have a: "length (filter (\<lambda>t. job_label t \<noteq> PStr ''prometheus'') (active_targets example_response)) = 2"
    by (simp add: example_response_def active_targets_def job_label_def)
  from probe_counts_non_self_targets[OF p _ t e wf] a t e wf p
  show ?thesis by simp
qed

section \<open>Reconfiguration\<close>

lemma update_status_frame:
  "config_file (update_status w) = config_file w
   \<and> config_writes (update_status w) = config_writes w
   \<and> restarts_issued (update_status w) = restarts_issued w
   \<and> service_active (update_status w) = service_active w"
  by (simp add: update_status_def Let_def split: prod.splits)

lemma on_targets_changed_eq: "on_targets_changed = on_config_changed"
  by (rule ext) (simp add: on_targets_changed_def on_config_changed_def)

lemma on_config_changed_cases:
  "on_config_changed w =
     (case get_scrape_jobs (consumer_jobs w) of
        Inl e \<Rightarrow> (Some e, w)
      | Inr jobs \<Rightarrow>
          if write_fails w then (Some OSError, w)
          else if \<not> service_active w
          then (None, update_status
                  (w\<lparr>config_file := Some (config_document (charm_config w) jobs),
                     config_writes := Suc (config_writes w)\<rparr>))
          else if restart_fails w
          then (Some CalledProcessError,
                w\<lparr>config_file := Some (config_document (charm_config w) jobs),
                  config_writes := Suc (config_writes w),
                  restarts_issued := Suc (restarts_issued w),
                  service_active := active_after_failed_restart w\<rparr>)
          else (None, update_status
                  (w\<lparr>config_file := Some (config_document (charm_config w) jobs),
                     config_writes := Suc (config_writes w),
                     restarts_issued := Suc (restarts_issued w),
                     service_active := True\<rparr>)))"
  by (simp add: on_config_changed_def generate_config_def restart_service_def
        is_service_running_def Let_def split: sum.splits)

text \<open>
  Claim C7. For either reconfiguration handler, started in state \<^verbatim>\<open>w\<close> and ending in
  \<^verbatim>\<open>w'\<close> with outcome \<^verbatim>\<open>r\<close>: once the jobs are collected and the file can be written,
  the rendered document is written (one write, whatever the file held and whether or
  not the process runs) and one restart is issued if the process was running, none if
  it was stopped; a handler that returns normally leaves the process running exactly if
  it was running; a stopped process is never restarted and stays stopped; no run issues
  more than one restart. The handler returns normally exactly when the jobs can be
  collected, the file can be written and the restart, if one is issued, succeeds.
\<close>

theorem reconfiguration_restart_discipline:
  assumes "h = on_config_changed \<or> h = on_targets_changed" and "h w = (r, w')"
  shows "(get_scrape_jobs (consumer_jobs w) = Inr jobs \<and> \<not> write_fails w \<longrightarrow>
            config_file w' = Some (config_document (charm_config w) jobs)
            \<and> config_writes w' = Suc (config_writes w)
            \<and> restarts_issued w' = restarts_issued w + (if service_active w then 1 else 0))
         \<and> (r = None \<longrightarrow> service_active w' = service_active w)
         \<and> (\<not> service_active w \<longrightarrow> restarts_issued w' = restarts_issued w \<and> \<not> service_active w')
         \<and> restarts_issued w' \<le> Suc (restarts_issued w)
         \<and> (r = None) =
             ((\<exists>js. get_scrape_jobs (consumer_jobs w) = Inr js) \<and> \<not> write_fails w
              \<and> (service_active w \<longrightarrow> \<not> restart_fails w))"
proof -
  from assms have c: "on_config_changed w = (r, w')" by (auto simp: on_targets_changed_eq)
  show ?thesis
  proof (cases "get_scrape_jobs (consumer_jobs w)")
    case (Inl e)
    with c show ?thesis by (auto simp: on_config_changed_cases)
  next
    case (Inr js)
    with c show ?thesis
      by (auto simp: on_config_changed_cases update_status_frame split: if_splits)
  qed
qed

text \<open>
  Two instances: a targets-changed event while the process runs (one restart, still
  running), and a config-changed event while it is stopped (the file is written, no
  restart, still stopped).
\<close>

theorem reconfiguration_restart_discipline_witness:
  "get_scrape_jobs (consumer_jobs running_world) = Inr [(PStr ''app'', named_app)]
   \<and> \<not> write_fails running_world \<and> service_active running_world
   \<and> fst (on_targets_changed running_world) = None
   \<and> config_file (snd (on_targets_changed running_world)) =
       Some (config_document (charm_config running_world) [(PStr ''app'', named_app)])
   \<and> restarts_issued (snd (on_targets_changed running_world)) = 1
   \<and> service_active (snd (on_targets_changed running_world))
   \<and> get_scrape_jobs (consumer_jobs stopped_world) = Inr []
   \<and> \<not> service_active stopped_world
   \<and> fst (on_config_changed stopped_world) = None
   \<and> config_writes (snd (on_config_changed stopped_world)) = 8
   \<and> restarts_issued (snd (on_config_changed stopped_world)) = 2
   \<and> \<not> service_active (snd (on_config_changed stopped_world))"
proof -
  have j1: "get_scrape_jobs (consumer_jobs running_world) = Inr [(PStr ''app'', named_app)]"
    by (simp add: running_world_def get_scrape_jobs_def named_app_def dict_setitem_def)
  have f1: "\<not> write_fails running_world \<and> service_active running_world
            \<and> \<not> restart_fails running_world \<and> restarts_issued running_world = 0"
    by (simp add: running_world_def)
  have j2: "get_scrape_jobs (consumer_jobs stopped_world) = Inr []"
    by (simp add: stopped_world_def get_scrape_jobs_def)
  have f2: "\<not> write_fails stopped_world \<and> \<not> service_active stopped_world
            \<and> restarts_issued stopped_world = 2 \<and> config_writes stopped_world = 7"
    by (simp add: stopped_world_def)
  have p1: "on_targets_changed running_world =
              (fst (on_targets_changed running_world), snd (on_targets_changed running_world))"
    by simp
  have p2: "on_config_changed stopped_world =
              (fst (on_config_changed stopped_world), snd (on_config_changed stopped_world))"
    by simp
  from reconfiguration_restart_discipline[OF disjI2[OF refl] p1, of "[(PStr ''app'', named_app)]"]
       reconfiguration_restart_discipline[OF disjI1[OF refl] p2, of "[]"]
       j1 f1 j2 f2
  show ?thesis by simp
qed

end
